theory Spec2Isabelle
  imports Main
begin

section \<open>Compliance status of a certificate (ComplianceManagement.tsx)\<close>

text \<open>
  The relational front end classifies a compliance record when the form is submitted:
  \<^verbatim>\<open>
  const getComplianceStatus = (expiryDate: string | null) => {
    if (!expiryDate) return 'valid';
    const expiry = new Date(expiryDate);
    const now = new Date();
    const thirtyDaysFromNow = addDays(now, 30);
    if (isBefore(expiry, now)) return 'expired';
    if (isBefore(expiry, thirtyDaysFromNow)) return 'pending_renewal';
    return 'valid';
  };
  \<close>
  A JavaScript \<open>Date\<close> holds a time value, a number of milliseconds since the epoch, or NaN
  (an invalid date). Time values are unbounded integers here: the end of the ECMAScript
  time range (year 275760) is not part of the model.
\<close>

datatype js_date = Invalid_Date | Date_ms int

text \<open>
  \<open>isBefore\<close> of date-fns compares the two time values with \<open><\<close>; a comparison with NaN
  is false.
\<close>

fun isBefore :: "js_date \<Rightarrow> js_date \<Rightarrow> bool" where
  "isBefore (Date_ms a) (Date_ms b) = (a < b)"
| "isBefore _ _ = False"

definition ms_per_day :: int where
  "ms_per_day = 86400000"

text \<open>
  The host's time zone is ECMAScript's \<open>LocalTZA(t, isUTC)\<close>: the offset of local time
  from UTC, in milliseconds, at the instant \<open>t\<close> when \<open>isUTC\<close> is true, and at the local time
  \<open>t\<close> when it is false (a local time that a transition skips or repeats takes the offset
  before the transition).
\<close>

type_synonym time_zone = "int \<Rightarrow> bool \<Rightarrow> int"

text \<open>
  \<open>addDays\<close> of date-fns returns the date as it is for the amount 0 and otherwise calls
  \<open>date.setDate(date.getDate() + amount)\<close>: the time value goes to local time, the local
  calendar day moves by \<open>amount\<close> and the time within the day stays, and the result goes
  back to UTC.
\<close>

fun addDays :: "time_zone \<Rightarrow> js_date \<Rightarrow> int \<Rightarrow> js_date" where
  "addDays tza Invalid_Date amount = Invalid_Date"
| "addDays tza (Date_ms t) amount =
     (if amount = 0 then Date_ms t
      else
        let local = t + tza t True;
            moved = local + amount * ms_per_day
        in Date_ms (moved - tza moved False))"

text \<open>
  The function is a closure of the React component. What it could read besides its argument
  is the component's state, declared with \<open>useState\<close>: the records and devices fetched, the
  flags \<open>loading\<close> and \<open>showForm\<close>, the record being edited and the form; and the host:
  the system clock, which \<open>new Date()\<close> reads, and the time zone, which \<open>addDays\<close> and the
  parser of dates read.
\<close>

record device_name_model =
  dnm_name :: string
  dnm_model :: "string option"

record ComplianceRecord =
  cr_id :: string
  cr_device_id :: string
  compliance_type :: string
  certificate_number :: "string option"
  issue_date :: "string option"
  expiry_date :: "string option"
  cr_status :: string
  auditor_name :: "string option"
  cr_notes :: "string option"
  cr_devices :: device_name_model

record Device =
  dev_id :: string
  dev_name :: string
  dev_model :: "string option"

record form_data =
  fd_device_id :: string
  fd_compliance_type :: string
  fd_certificate_number :: string
  fd_issue_date :: string
  fd_expiry_date :: string
  fd_auditor_name :: string
  fd_notes :: string

record host =
  clock :: int
  LocalTZA :: time_zone
  records :: "ComplianceRecord list"
  devices :: "Device list"
  loading :: bool
  showForm :: bool
  editingRecord :: "ComplianceRecord option"
  formData :: form_data

text \<open>
  \<open>new Date(expiryDate)\<close> parses a string. The grammar is the platform's, so the parser
  is the parameter \<open>Date_parse\<close>; it is given the host's time zone, in which the platform
  reads a date with a time and no offset (a date alone, as the form supplies it, is midnight
  UTC), and it answers \<open>Invalid_Date\<close> where the platform answers an invalid date.
  \<open>!expiryDate\<close> holds for \<open>null\<close> and for the empty string (the form's initial value).
\<close>

definition getComplianceStatus :: "(time_zone \<Rightarrow> string \<Rightarrow> js_date) \<Rightarrow> host \<Rightarrow> string option \<Rightarrow> string" where
  "getComplianceStatus Date_parse h expiryDate =
     (case expiryDate of
        None \<Rightarrow> ''valid''
      | Some s \<Rightarrow>
          if s = [] then ''valid''
          else
            let expiry = Date_parse (LocalTZA h) s;
                now = Date_ms (clock h);
                thirtyDaysFromNow = addDays (LocalTZA h) now 30
            in if isBefore expiry now then ''expired''
               else if isBefore expiry thirtyDaysFromNow then ''pending_renewal''
               else ''valid'')"




subsection \<open>Two hosts\<close>

text \<open>
  UTC, and New York in the year 2024: five hours behind UTC, four from 2024-03-10 07:00 UTC
  (03:00 local) to 2024-11-03 06:00 UTC (02:00 local).
\<close>

definition utc_zone :: time_zone where
  "utc_zone t isUTC = 0"

definition new_york_2024 :: time_zone where
  "new_york_2024 t isUTC =
     (if isUTC then (if 1710054000000 \<le> t \<and> t < 1730613600000 then - 14400000 else - 18000000)
      else (if 1710039600000 \<le> t \<and> t < 1730599200000 then - 14400000 else - 18000000))"

definition empty_form :: form_data where
  "empty_form =
     \<lparr>fd_device_id = [], fd_compliance_type = ''FDA'', fd_certificate_number = [],
      fd_issue_date = [], fd_expiry_date = [], fd_auditor_name = [], fd_notes = []\<rparr>"

definition host_at :: "int \<Rightarrow> time_zone \<Rightarrow> host" where
  "host_at t tza =
     \<lparr>clock = t, LocalTZA = tza, records = [], devices = [], loading = True, showForm = False,
      editingRecord = None, formData = empty_form\<rparr>"

text \<open>
  A parser that knows one string, the date alone 2024-03-31, which is midnight UTC in any
  zone.
\<close>

definition parse_2024_03_31 :: "time_zone \<Rightarrow> string \<Rightarrow> js_date" where
  "parse_2024_03_31 tza s = (if s = ''2024-03-31'' then Date_ms 1711843200000 else Invalid_Date)"


section \<open>The triggers of the relational schema (migration 20250909144510\_cool\_dune.sql)\<close>

subsection \<open>SQL values\<close>

text \<open>
  A nullable column is an \<open>option\<close>, \<open>None\<close> for NULL. A condition has three values, and
  \<open>None\<close> is unknown; an \<open>IF\<close> or a \<open>WHERE\<close> passes only on true.
\<close>

type_synonym uuid = string

definition sql_eq :: "'a option \<Rightarrow> 'a option \<Rightarrow> bool option" where
  "sql_eq a b = (case a of None \<Rightarrow> None | Some x \<Rightarrow> (case b of None \<Rightarrow> None | Some y \<Rightarrow> Some (x = y)))"

definition sql_or :: "bool option \<Rightarrow> bool option \<Rightarrow> bool option" where
  "sql_or a b =
     (if a = Some True \<or> b = Some True then Some True
      else if a = Some False \<and> b = Some False then Some False
      else None)"

definition sql_true :: "bool option \<Rightarrow> bool" where
  "sql_true c = (c = Some True)"

text \<open>
  \<open>x IN (subquery)\<close> where the subquery returns a primary key, so no NULL: false on the
  empty result, unknown for a NULL \<open>x\<close>, membership otherwise.
\<close>

definition sql_in :: "'a option \<Rightarrow> 'a list \<Rightarrow> bool option" where
  "sql_in a xs =
     (if xs = [] then Some False
      else (case a of None \<Rightarrow> None | Some x \<Rightarrow> Some (x \<in> set xs)))"

definition coalesce :: "'a option \<Rightarrow> 'a option \<Rightarrow> 'a option" where
  "coalesce a b = (case a of None \<Rightarrow> b | Some x \<Rightarrow> Some x)"

text \<open>
  A \<open>date\<close> is a day number, as the database stores it: the days since 2000-01-01. The
  conversion from and to year, month and day is the database's Julian-day arithmetic
  (\<open>date2j\<close>, \<open>j2date\<close>), for years of the common era. The values \<open>infinity\<close> and
  \<open>-infinity\<close> are not part of the model. The arithmetic on day numbers below is what the
  database computes when it does not fail; where it fails, at the ends of the range of the
  type \<open>timestamp\<close>, is modelled with the trigger's outcome further down.
\<close>

type_synonym date = int

definition date2j :: "int \<Rightarrow> int \<Rightarrow> int \<Rightarrow> int" where
  "date2j y m d =
     (let m' = (if m > 2 then m + 1 else m + 13);
          y' = (if m > 2 then y + 4800 else y + 4799);
          century = y' div 100
      in y' * 365 - 32167 + (y' div 4 - century + century div 4) + (7834 * m' div 256 + d))"


definition POSTGRES_EPOCH_JDATE :: int where
  "POSTGRES_EPOCH_JDATE = 2451545"

definition make_date :: "int \<Rightarrow> int \<Rightarrow> int \<Rightarrow> date" where
  "make_date y m d = date2j y m d - POSTGRES_EPOCH_JDATE"


text \<open>
  \<open>INTERVAL '1 day' * n\<close> is an interval of \<open>n\<close> days, written as its number of days;
  \<open>date + interval\<close> is the timestamp at midnight that many calendar days later, and the
  assignment to a \<open>date\<close> column keeps its day. Both are NULL on a NULL operand.
\<close>

definition interval_1_day_times :: "int option \<Rightarrow> int option" where
  "interval_1_day_times n = (case n of None \<Rightarrow> None | Some k \<Rightarrow> Some (1 * k))"

definition date_pl_interval :: "date option \<Rightarrow> int option \<Rightarrow> date option" where
  "date_pl_interval d span =
     (case d of None \<Rightarrow> None | Some x \<Rightarrow> (case span of None \<Rightarrow> None | Some k \<Rightarrow> Some (x + k)))"

text \<open>
  \<open>SELECT e INTO target FROM t WHERE c\<close> of PL/pgSQL assigns the value of the first row
  found, and NULL when no row is found.
\<close>

definition select_into :: "'a option list \<Rightarrow> 'a option" where
  "select_into rows = (case rows of [] \<Rightarrow> None | v # _ \<Rightarrow> v)"

subsection \<open>Tables\<close>

text \<open>
  The rows of \<open>equipment_types\<close> and \<open>departments\<close> are stored rows: the primary key is
  not NULL. The rows of \<open>devices\<close> and \<open>requests\<close> are the \<open>NEW\<close> rows a \<open>BEFORE\<close>
  trigger sees, before any constraint is checked: every column may be NULL. Columns that
  several tables name alike carry the table's name here.
\<close>

record equipment_type =
  et_id :: uuid
  et_name :: "string option"
  et_description :: "string option"
  is_medical_device :: "bool option"
  requires_certification :: "bool option"
  maintenance_interval_days :: "int option"
  et_created_at :: "int option"

record department =
  dept_id :: uuid
  dept_name :: "string option"
  code :: "string option"
  dept_description :: "string option"
  head_of_department :: "string option"
  contact_number :: "string option"
  dept_location :: "string option"
  is_critical :: "bool option"
  dept_created_at :: "int option"

record device =
  device_id :: "uuid option"
  device_name :: "string option"
  category_id :: "uuid option"
  model :: "string option"
  serial_number :: "string option"
  device_status :: "string option"
  assigned_to :: "uuid option"
  purchase_date :: "date option"
  warranty_date :: "date option"
  device_notes :: "string option"
  device_created_at :: "int option"
  device_updated_at :: "int option"
  equipment_type_id :: "uuid option"
  device_location :: "string option"
  device_is_critical :: "bool option"
  last_maintenance_date :: "date option"
  next_maintenance_date :: "date option"
  compliance_status :: "string option"

record request =
  request_id :: "uuid option"
  user_id :: "uuid option"
  request_type_id :: "uuid option"
  title :: "string option"
  description :: "string option"
  priority :: "string option"
  request_status :: "string option"
  assigned_admin_id :: "uuid option"
  request_device_id :: "uuid option"
  resolution_notes :: "string option"
  request_created_at :: "int option"
  request_updated_at :: "int option"
  completed_at :: "int option"
  department_id :: "uuid option"
  urgency_level :: "string option"
  patient_impact :: "bool option"
  estimated_downtime :: "string option"
  actual_resolution_time :: "int option"

subsection \<open>The maintenance-date trigger\<close>

text \<open>
  \<^verbatim>\<open>
  CREATE OR REPLACE FUNCTION update_next_maintenance_date() RETURNS TRIGGER AS $$
  BEGIN
    IF NEW.equipment_type_id IS NOT NULL THEN
      SELECT
        COALESCE(NEW.last_maintenance_date, CURRENT_DATE) + INTERVAL '1 day' * et.maintenance_interval_days
      INTO NEW.next_maintenance_date
      FROM equipment_types et
      WHERE et.id = NEW.equipment_type_id;
    END IF;
    RETURN NEW;
  END;
  \<close>
  It runs \<open>BEFORE INSERT OR UPDATE ON devices FOR EACH ROW\<close>; the row it returns is the row
  written. The table \<open>equipment_types\<close> and the session's \<open>CURRENT_DATE\<close> are what it
  reads besides \<open>NEW\<close>.
\<close>

definition update_next_maintenance_date :: "equipment_type list \<Rightarrow> date \<Rightarrow> device \<Rightarrow> device" where
  "update_next_maintenance_date equipment_types CURRENT_DATE NEW =
     (if equipment_type_id NEW \<noteq> None then
        NEW\<lparr>next_maintenance_date :=
          select_into
            (map (\<lambda>et. date_pl_interval
                          (coalesce (last_maintenance_date NEW) (Some CURRENT_DATE))
                          (interval_1_day_times (maintenance_interval_days et)))
               (filter (\<lambda>et. sql_true (sql_eq (Some (et_id et)) (equipment_type_id NEW)))
                  equipment_types))\<rparr>
      else NEW)"

text \<open>
  The trigger with its failures. The database adds an interval to a date as a timestamp, and
  a timestamp is a day from Julian day 0 (4714-11-24 BC) to the last day of the year 294276:
  the addition raises \<open>date out of range for timestamp\<close> or \<open>timestamp out of range\<close>
  when the date or the sum is not such a day, and the write is aborted. The error
  \<open>InvalidConfiguration\<close> is the specification's; nothing in the trigger raises it.
\<close>

datatype error = InvalidConfiguration | Timestamp_out_of_range

definition TIMESTAMP_END_JULIAN :: int where
  "TIMESTAMP_END_JULIAN = 109203528"

definition timestamp_in_range :: "date \<Rightarrow> bool" where
  "timestamp_in_range d =
     (0 \<le> d + POSTGRES_EPOCH_JDATE \<and> d + POSTGRES_EPOCH_JDATE < TIMESTAMP_END_JULIAN)"

definition date_pl_interval_outcome :: "date option \<Rightarrow> int option \<Rightarrow> error + date option" where
  "date_pl_interval_outcome d span =
     (case d of
        None \<Rightarrow> Inr None
      | Some x \<Rightarrow>
          (case span of
             None \<Rightarrow> Inr None
           | Some k \<Rightarrow>
               if timestamp_in_range x \<and> timestamp_in_range (x + k) then Inr (Some (x + k))
               else Inl Timestamp_out_of_range))"

definition update_next_maintenance_date_outcome :: "equipment_type list \<Rightarrow> date \<Rightarrow> device \<Rightarrow> error + device" where
  "update_next_maintenance_date_outcome equipment_types CURRENT_DATE NEW =
     (if equipment_type_id NEW \<noteq> None then
        (case filter (\<lambda>et. sql_true (sql_eq (Some (et_id et)) (equipment_type_id NEW)))
                equipment_types of
           [] \<Rightarrow> Inr (NEW\<lparr>next_maintenance_date := None\<rparr>)
         | et # _ \<Rightarrow>
             (case date_pl_interval_outcome
                     (coalesce (last_maintenance_date NEW) (Some CURRENT_DATE))
                     (interval_1_day_times (maintenance_interval_days et)) of
                Inl e \<Rightarrow> Inl e
              | Inr v \<Rightarrow> Inr (NEW\<lparr>next_maintenance_date := v\<rparr>)))
      else Inr NEW)"

text \<open>
  The rule as the specification words it, with its one error.
\<close>

definition deriveNextMaintenanceDate :: "date option \<Rightarrow> int \<Rightarrow> date \<Rightarrow> error + date" where
  "deriveNextMaintenanceDate lastMaintenanceDate intervalDays now =
     (if intervalDays \<le> 0 then Inl InvalidConfiguration
      else Inr ((case lastMaintenanceDate of None \<Rightarrow> now | Some l \<Rightarrow> l) + intervalDays))"

subsection \<open>The escalation trigger\<close>

text \<open>
  \<^verbatim>\<open>
  CREATE OR REPLACE FUNCTION check_request_escalation() RETURNS TRIGGER AS $$
  BEGIN
    -- Auto-escalate emergency requests
    IF NEW.urgency_level = 'emergency' OR NEW.urgency_level = 'critical' THEN
      NEW.priority := 'urgent';
    END IF;
    -- Set patient impact flag for critical departments
    IF NEW.department_id IN (
      SELECT id FROM departments WHERE is_critical = true
    ) THEN
      NEW.patient_impact := true;
    END IF;
    RETURN NEW;
  END;
  \<close>
  It runs \<open>BEFORE INSERT OR UPDATE ON requests FOR EACH ROW\<close>. Each of its two statements
  is a function of its own here, named after its comment; the trigger runs the first, then
  the second.
\<close>

definition auto_escalate_emergency :: "request \<Rightarrow> request" where
  "auto_escalate_emergency NEW =
     (if sql_true (sql_or (sql_eq (urgency_level NEW) (Some ''emergency''))
                          (sql_eq (urgency_level NEW) (Some ''critical'')))
      then NEW\<lparr>priority := Some ''urgent''\<rparr>
      else NEW)"

definition critical_department_ids :: "department list \<Rightarrow> uuid list" where
  "critical_department_ids departments =
     map dept_id (filter (\<lambda>d. sql_true (sql_eq (is_critical d) (Some True))) departments)"

definition set_patient_impact_flag :: "department list \<Rightarrow> request \<Rightarrow> request" where
  "set_patient_impact_flag departments NEW =
     (if sql_true (sql_in (department_id NEW) (critical_department_ids departments))
      then NEW\<lparr>patient_impact := Some True\<rparr>
      else NEW)"

definition check_request_escalation :: "department list \<Rightarrow> request \<Rightarrow> request" where
  "check_request_escalation departments NEW =
     set_patient_impact_flag departments (auto_escalate_emergency NEW)"

text \<open>
  The inputs of the specification's \<open>deriveRequestEscalation\<close>, read off a row: the
  department is critical when the row names a department and the table holds a row of that
  id whose \<open>is_critical\<close> is true; the urgency escalates when it is one of the two texts.
\<close>

definition departmentIsCritical :: "department list \<Rightarrow> request \<Rightarrow> bool" where
  "departmentIsCritical departments NEW =
     (case department_id NEW of
        None \<Rightarrow> False
      | Some i \<Rightarrow> list_ex (\<lambda>d. dept_id d = i \<and> is_critical d = Some True) departments)"

definition urgency_escalates :: "request \<Rightarrow> bool" where
  "urgency_escalates NEW =
     (urgency_level NEW = Some ''emergency'' \<or> urgency_level NEW = Some ''critical'')"

text \<open>
  The ordered scale of the specification, low < medium < high < urgent; a text that is
  none of the four has no rank.
\<close>

definition priority_rank :: "string option \<Rightarrow> nat option" where
  "priority_rank p =
     (if p = Some ''low'' then Some 0
      else if p = Some ''medium'' then Some 1
      else if p = Some ''high'' then Some 2
      else if p = Some ''urgent'' then Some 3
      else None)"


subsection \<open>Rows of the migration's seed data\<close>

text \<open>
  Two of the equipment types and two of the departments the migration inserts (the ids are
  generated by the database; these stand for them), and the rows with every column NULL,
  from which the examples below are built.
\<close>

definition ultrasound :: equipment_type where
  "ultrasound =
     \<lparr>et_id = ''et-ultrasound'', et_name = Some ''Ultrasound'',
      et_description = Some ''Ultrasonic imaging device'', is_medical_device = Some True,
      requires_certification = Some True, maintenance_interval_days = Some 90,
      et_created_at = None\<rparr>"

definition ventilator :: equipment_type where
  "ventilator =
     \<lparr>et_id = ''et-ventilator'', et_name = Some ''Ventilator'',
      et_description = Some ''Mechanical ventilation device'', is_medical_device = Some True,
      requires_certification = Some True, maintenance_interval_days = Some 7,
      et_created_at = None\<rparr>"

definition seed_equipment_types :: "equipment_type list" where
  "seed_equipment_types = [ultrasound, ventilator]"

definition icu :: department where
  "icu =
     \<lparr>dept_id = ''dept-icu'', dept_name = Some ''Intensive Care Unit'', code = Some ''ICU'',
      dept_description = Some ''Critical care unit'', head_of_department = None,
      contact_number = None, dept_location = None, is_critical = Some True,
      dept_created_at = None\<rparr>"

definition pharmacy :: department where
  "pharmacy =
     \<lparr>dept_id = ''dept-pharm'', dept_name = Some ''Pharmacy'', code = Some ''PHARM'',
      dept_description = Some ''Medication services'', head_of_department = None,
      contact_number = None, dept_location = None, is_critical = Some False,
      dept_created_at = None\<rparr>"

definition seed_departments :: "department list" where
  "seed_departments = [icu, pharmacy]"

definition null_device :: device where
  "null_device =
     \<lparr>device_id = None, device_name = None, category_id = None, model = None,
      serial_number = None, device_status = None, assigned_to = None, purchase_date = None,
      warranty_date = None, device_notes = None, device_created_at = None,
      device_updated_at = None, equipment_type_id = None, device_location = None,
      device_is_critical = None, last_maintenance_date = None, next_maintenance_date = None,
      compliance_status = None\<rparr>"

definition null_request :: request where
  "null_request =
     \<lparr>request_id = None, user_id = None, request_type_id = None, title = None,
      description = None, priority = None, request_status = None, assigned_admin_id = None,
      request_device_id = None, resolution_notes = None, request_created_at = None,
      request_updated_at = None, completed_at = None, department_id = None,
      urgency_level = None, patient_impact = None, estimated_downtime = None,
      actual_resolution_time = None\<rparr>"

section \<open>The request service of the document store (services/firebaseService.ts)\<close>

text \<open>
  \<^verbatim>\<open>
  export const requestService = {
    async createRequest(requestData: any) {
      const requestsRef = collection(db, 'requests');
      const docRef = await addDoc(requestsRef, {
        ...requestData,
        status: 'pending',
        createdAt: serverTimestamp(),
        updatedAt: serverTimestamp()
      });
      return docRef;
    },
  \<close>
  A document is a map from field names to values. \<open>serverTimestamp()\<close> is a sentinel that
  stands for the time of the write at the server; it is a value of its own kind here.
  Numbers are the integral ones. A payload is a document: every field it has holds a value
  the store accepts (the client library refuses a field that is \<open>undefined\<close>).
\<close>

datatype fs_value =
    FS_null
  | FS_boolean bool
  | FS_number int
  | FS_string string
  | FS_array "fs_value list"
  | FS_map "(string \<times> fs_value) list"
  | FS_serverTimestamp

type_synonym fs_data = "string \<rightharpoonup> fs_value"

text \<open>
  The store: each collection, by its path, maps document ids to documents. A reference to a
  document is the path of its collection and its id.
\<close>

record firestore =
  collections :: "string \<Rightarrow> (string \<rightharpoonup> fs_data)"

type_synonym doc_ref = "string \<times> string"

definition serverTimestamp :: fs_value where
  "serverTimestamp = FS_serverTimestamp"

text \<open>
  \<open>addDoc\<close> writes the data under an id the client generates, \<open>auto_id\<close> here, and returns
  the reference. The object spread copies every field of the payload; the fields written
  after it replace a field of the same name.
\<close>

definition addDoc :: "string \<Rightarrow> string \<Rightarrow> fs_data \<Rightarrow> firestore \<Rightarrow> doc_ref \<times> firestore" where
  "addDoc path auto_id data db =
     ((path, auto_id),
      db\<lparr>collections := (collections db)(path := (collections db path)(auto_id \<mapsto> data))\<rparr>)"

definition createRequest :: "string \<Rightarrow> fs_data \<Rightarrow> firestore \<Rightarrow> doc_ref \<times> firestore" where
  "createRequest auto_id requestData db =
     addDoc ''requests'' auto_id
       (requestData(''status'' \<mapsto> FS_string ''pending'',
                    ''createdAt'' \<mapsto> serverTimestamp,
                    ''updatedAt'' \<mapsto> serverTimestamp))
       db"

text \<open>The document a reference points to, if there is one.\<close>

definition getDoc :: "firestore \<Rightarrow> doc_ref \<Rightarrow> fs_data option" where
  "getDoc db ref = collections db (fst ref) (snd ref)"


section \<open>Properties of the compliance status\<close>



text \<open>
  The string of the two hosts' examples is midnight UTC of its day.
\<close>

lemma midnight_utc_2024_03_31:
  "(date2j 2024 3 31 - date2j 1970 1 1) * ms_per_day = 1711843200000"
  by code_simp




text \<open>
  Claim C7, as amended. The status is a function of the expiry date, of the instant of the
  call and of the host's time zone: two calls with the same expiry date on hosts whose clocks
  read the same instant and whose time zones are the same return the same status, whatever
  the state of the component is.
\<close>

theorem getComplianceStatus_deterministic:
  assumes "clock h1 = clock h2" and "LocalTZA h1 = LocalTZA h2"
  shows "getComplianceStatus Date_parse h1 expiryDate = getComplianceStatus Date_parse h2 expiryDate"
  using assms by (simp add: getComplianceStatus_def split: option.split)

theorem getComplianceStatus_deterministic_witness:
  "clock (host_at 1709253000000 new_york_2024)
     = clock ((host_at 1709253000000 new_york_2024)\<lparr>loading := False, showForm := True\<rparr>)
   \<and> LocalTZA (host_at 1709253000000 new_york_2024)
     = LocalTZA ((host_at 1709253000000 new_york_2024)\<lparr>loading := False, showForm := True\<rparr>)
   \<and> getComplianceStatus parse_2024_03_31 (host_at 1709253000000 new_york_2024) (Some ''2024-03-31'')
     = getComplianceStatus parse_2024_03_31
         ((host_at 1709253000000 new_york_2024)\<lparr>loading := False, showForm := True\<rparr>)
         (Some ''2024-03-31'')"
proof -
  let ?h1 = "host_at 1709253000000 new_york_2024"
  let ?h2 = "(host_at 1709253000000 new_york_2024)\<lparr>loading := False, showForm := True\<rparr>"
  have 1: "clock ?h1 = clock ?h2" by simp
  have 2: "LocalTZA ?h1 = LocalTZA ?h2" by simp
  from 1 2 getComplianceStatus_deterministic [OF 1 2, of parse_2024_03_31 "Some ''2024-03-31''"]
  show ?thesis by (intro conjI)
qed

text \<open>
  The claim as stated, that the status depends on nothing but the expiry date and the
  instant, fails: at the same instant, 2024-03-01 00:30 UTC, and for the same expiry date a
  host in UTC answers pending renewal and a host in New York answers valid.
\<close>

theorem getComplianceStatus_deterministic_counterexample:
  "clock (host_at 1709253000000 utc_zone) = clock (host_at 1709253000000 new_york_2024)
   \<and> getComplianceStatus parse_2024_03_31 (host_at 1709253000000 utc_zone) (Some ''2024-03-31'')
       = ''pending_renewal''
   \<and> getComplianceStatus parse_2024_03_31 (host_at 1709253000000 new_york_2024) (Some ''2024-03-31'')
       = ''valid''"
  by (simp add: parse_2024_03_31_def host_at_def getComplianceStatus_def new_york_2024_def
      utc_zone_def ms_per_day_def Let_def)

section \<open>Properties of the maintenance-date trigger\<close>

text \<open>
  A table with a primary key holds one row for an id, so the \<open>WHERE\<close> of the trigger finds
  that row and no other.
\<close>

lemma filter_primary_key:
  "distinct (map f xs) \<Longrightarrow> x \<in> set xs \<Longrightarrow> filter (\<lambda>y. f y = f x) xs = [x]"
proof (induction xs)
  case Nil
  then show ?case by simp
next
  case (Cons a xs)
  show ?case
  proof (cases "a = x")
    case True
    with Cons.prems have "f x \<notin> f ` set xs" by simp
    then have "\<forall>y \<in> set xs. f y \<noteq> f x" by (auto simp: image_iff)
    then have "filter (\<lambda>y. f y = f x) xs = []" by (simp add: filter_empty_conv)
    with True show ?thesis by simp
  next
    case False
    with Cons.prems have "x \<in> set xs" and "f a \<noteq> f x" by auto
    with Cons show ?thesis by simp
  qed
qed

lemma sql_true_eq_Some: "sql_true (sql_eq (Some a) b) = (b = Some a)"
  by (auto simp: sql_true_def sql_eq_def split: option.split)

lemma equipment_type_row:
  assumes "equipment_type_id NEW = Some t"
    and "distinct (map et_id equipment_types)"
    and "et \<in> set equipment_types"
    and "et_id et = t"
  shows "filter (\<lambda>e. sql_true (sql_eq (Some (et_id e)) (equipment_type_id NEW))) equipment_types
           = [et]"
proof -
  have "filter (\<lambda>e. sql_true (sql_eq (Some (et_id e)) (equipment_type_id NEW))) equipment_types
          = filter (\<lambda>e. et_id e = et_id et) equipment_types"
    using assms(1,4) by (simp add: sql_true_eq_Some eq_commute)
  also have "\<dots> = [et]"
    using assms(2,3) by (rule filter_primary_key)
  finally show ?thesis .
qed

text \<open>
  The three outcomes of a write that names an equipment type: the type has an interval, the
  type has none (the column is nullable), no row has the id (the write then fails on the
  foreign key, after the trigger).
\<close>

lemma update_next_maintenance_date_found:
  assumes "equipment_type_id NEW = Some t"
    and "distinct (map et_id equipment_types)"
    and "et \<in> set equipment_types"
    and "et_id et = t"
    and "maintenance_interval_days et = Some n"
  shows "update_next_maintenance_date equipment_types today NEW =
           NEW\<lparr>next_maintenance_date :=
             Some ((case last_maintenance_date NEW of None \<Rightarrow> today | Some l \<Rightarrow> l) + n)\<rparr>"
  using assms(1,5) equipment_type_row [OF assms(1-4)]
  by (simp add: update_next_maintenance_date_def select_into_def date_pl_interval_def
      coalesce_def interval_1_day_times_def split: option.split)

lemma update_next_maintenance_date_null_interval:
  assumes "equipment_type_id NEW = Some t"
    and "distinct (map et_id equipment_types)"
    and "et \<in> set equipment_types"
    and "et_id et = t"
    and "maintenance_interval_days et = None"
  shows "update_next_maintenance_date equipment_types today NEW =
           NEW\<lparr>next_maintenance_date := None\<rparr>"
  using assms(1,5) equipment_type_row [OF assms(1-4)]
  by (simp add: update_next_maintenance_date_def select_into_def date_pl_interval_def
      interval_1_day_times_def split: option.split)

lemma update_next_maintenance_date_no_row:
  assumes "equipment_type_id NEW = Some t"
    and "t \<notin> et_id ` set equipment_types"
  shows "update_next_maintenance_date equipment_types today NEW =
           NEW\<lparr>next_maintenance_date := None\<rparr>"
proof -
  from assms(2)
  have "filter (\<lambda>e. sql_true (sql_eq (Some (et_id e)) (Some t))) equipment_types = []"
    by (auto simp: filter_empty_conv sql_true_eq_Some)
  with assms(1) show ?thesis
    by (simp add: update_next_maintenance_date_def select_into_def)
qed

text \<open>
  Where the rule of the specification gives a date, with a positive interval, the trigger
  stores that date.
\<close>

lemma update_next_maintenance_date_refines:
  assumes "equipment_type_id NEW = Some t"
    and "distinct (map et_id equipment_types)"
    and "et \<in> set equipment_types"
    and "et_id et = t"
    and "maintenance_interval_days et = Some intervalDays"
    and "0 < intervalDays"
  shows "map_option Inr (next_maintenance_date (update_next_maintenance_date equipment_types now NEW))
           = Some (deriveNextMaintenanceDate (last_maintenance_date NEW) intervalDays now)"
  using update_next_maintenance_date_found [OF assms(1-5), of now] assms(6)
  by (simp add: deriveNextMaintenanceDate_def)




text \<open>
  Claim C8. On a device write with no equipment type (\<open>equipment_type_id\<close> is NULL) the
  trigger returns the row as it came: \<open>next_maintenance_date\<close> is neither recomputed nor
  cleared, and no other column changes.
\<close>

theorem update_next_maintenance_date_no_type:
  assumes "equipment_type_id NEW = None"
  shows "update_next_maintenance_date equipment_types today NEW = NEW"
  using assms by (simp add: update_next_maintenance_date_def)

theorem update_next_maintenance_date_no_type_witness:
  "equipment_type_id (null_device\<lparr>next_maintenance_date := Some (make_date 2025 6 1)\<rparr>) = None
   \<and> update_next_maintenance_date seed_equipment_types (make_date 2024 1 1)
        (null_device\<lparr>next_maintenance_date := Some (make_date 2025 6 1)\<rparr>)
       = null_device\<lparr>next_maintenance_date := Some (make_date 2025 6 1)\<rparr>"
proof -
  have 1: "equipment_type_id (null_device\<lparr>next_maintenance_date := Some (make_date 2025 6 1)\<rparr>) = None"
    by (simp add: null_device_def)
  from 1 update_next_maintenance_date_no_type [OF 1, of seed_equipment_types "make_date 2024 1 1"]
  show ?thesis by (intro conjI)
qed


text \<open>
  The trigger with its failures: it fails with no error but the database's, and where it
  returns a row, the row is the one computed above.
\<close>

lemma date_pl_interval_outcome_cases:
  "date_pl_interval_outcome d span = Inl e \<Longrightarrow> e = Timestamp_out_of_range"
  by (auto simp: date_pl_interval_outcome_def split: option.splits if_splits)

lemma update_next_maintenance_date_outcome_failure:
  "update_next_maintenance_date_outcome equipment_types today NEW = Inl e
     \<Longrightarrow> e = Timestamp_out_of_range"
  by (auto simp: update_next_maintenance_date_outcome_def
      dest: date_pl_interval_outcome_cases split: if_splits list.splits sum.splits)

lemma date_pl_interval_outcome_value:
  "date_pl_interval_outcome d span = Inr v \<Longrightarrow> v = date_pl_interval d span"
  by (auto simp: date_pl_interval_outcome_def date_pl_interval_def split: option.splits if_splits)

lemma update_next_maintenance_date_outcome_value:
  "update_next_maintenance_date_outcome equipment_types today NEW = Inr row
     \<Longrightarrow> row = update_next_maintenance_date equipment_types today NEW"
  by (auto simp: update_next_maintenance_date_outcome_def update_next_maintenance_date_def
      select_into_def dest: date_pl_interval_outcome_value
      split: if_splits list.splits sum.splits)

lemma update_next_maintenance_date_outcome_found:
  assumes "equipment_type_id NEW = Some t"
    and "distinct (map et_id equipment_types)"
    and "et \<in> set equipment_types"
    and "et_id et = t"
    and "maintenance_interval_days et = Some n"
  shows "update_next_maintenance_date_outcome equipment_types today NEW =
           (if timestamp_in_range (case last_maintenance_date NEW of None \<Rightarrow> today | Some l \<Rightarrow> l)
               \<and> timestamp_in_range
                    ((case last_maintenance_date NEW of None \<Rightarrow> today | Some l \<Rightarrow> l) + n)
            then Inr (NEW\<lparr>next_maintenance_date :=
                   Some ((case last_maintenance_date NEW of None \<Rightarrow> today | Some l \<Rightarrow> l) + n)\<rparr>)
            else Inl Timestamp_out_of_range)"
  using assms(1,5) equipment_type_row [OF assms(1-4)]
  by (simp add: update_next_maintenance_date_outcome_def date_pl_interval_outcome_def
      coalesce_def interval_1_day_times_def split: option.split)

text \<open>
  Claim C4, as amended. The trigger never fails with \<open>InvalidConfiguration\<close>: it checks
  nothing about the interval. On a device write whose equipment type is found with an
  interval that is zero or negative it stores the base date plus that interval, a date that
  is not after the base date, when the base date and the sum are days of the database's
  timestamp range; when they are not, the database's addition fails with its own error,
  timestamp out of range.
\<close>

theorem update_next_maintenance_date_unchecked:
  "update_next_maintenance_date_outcome equipment_types now NEW \<noteq> Inl InvalidConfiguration
   \<and> (equipment_type_id NEW = Some t \<and> distinct (map et_id equipment_types)
        \<and> et \<in> set equipment_types \<and> et_id et = t
        \<and> maintenance_interval_days et = Some intervalDays \<and> intervalDays \<le> 0
      \<longrightarrow>
        update_next_maintenance_date_outcome equipment_types now NEW =
          (if timestamp_in_range (case last_maintenance_date NEW of None \<Rightarrow> now | Some l \<Rightarrow> l)
              \<and> timestamp_in_range
                   ((case last_maintenance_date NEW of None \<Rightarrow> now | Some l \<Rightarrow> l) + intervalDays)
           then Inr (NEW\<lparr>next_maintenance_date :=
                  Some ((case last_maintenance_date NEW of None \<Rightarrow> now | Some l \<Rightarrow> l) + intervalDays)\<rparr>)
           else Inl Timestamp_out_of_range)
        \<and> (case last_maintenance_date NEW of None \<Rightarrow> now | Some l \<Rightarrow> l) + intervalDays
            \<le> (case last_maintenance_date NEW of None \<Rightarrow> now | Some l \<Rightarrow> l))"
proof (intro conjI impI)
  show "update_next_maintenance_date_outcome equipment_types now NEW \<noteq> Inl InvalidConfiguration"
    using update_next_maintenance_date_outcome_failure [of equipment_types now NEW InvalidConfiguration]
    by auto
next
  assume h: "equipment_type_id NEW = Some t \<and> distinct (map et_id equipment_types)
        \<and> et \<in> set equipment_types \<and> et_id et = t
        \<and> maintenance_interval_days et = Some intervalDays \<and> intervalDays \<le> 0"
  then have found: "equipment_type_id NEW = Some t" "distinct (map et_id equipment_types)"
    "et \<in> set equipment_types" "et_id et = t" "maintenance_interval_days et = Some intervalDays"
    by simp_all
  show "update_next_maintenance_date_outcome equipment_types now NEW =
          (if timestamp_in_range (case last_maintenance_date NEW of None \<Rightarrow> now | Some l \<Rightarrow> l)
              \<and> timestamp_in_range
                   ((case last_maintenance_date NEW of None \<Rightarrow> now | Some l \<Rightarrow> l) + intervalDays)
           then Inr (NEW\<lparr>next_maintenance_date :=
                  Some ((case last_maintenance_date NEW of None \<Rightarrow> now | Some l \<Rightarrow> l) + intervalDays)\<rparr>)
           else Inl Timestamp_out_of_range)"
    by (rule update_next_maintenance_date_outcome_found [OF found])
  from h show "(case last_maintenance_date NEW of None \<Rightarrow> now | Some l \<Rightarrow> l) + intervalDays
            \<le> (case last_maintenance_date NEW of None \<Rightarrow> now | Some l \<Rightarrow> l)"
    by simp
qed

lemma timestamp_in_range_2024:
  "timestamp_in_range (make_date 2024 7 1)" "timestamp_in_range (make_date 2024 7 1 + - 7)"
  "timestamp_in_range (make_date 2024 1 1)" "timestamp_in_range (make_date 2024 1 1 + 0)"
  by code_simp+

theorem update_next_maintenance_date_unchecked_witness:
  "equipment_type_id (null_device\<lparr>equipment_type_id := Some ''et-ultrasound''\<rparr>) = Some ''et-ultrasound''
   \<and> distinct (map et_id [ultrasound\<lparr>maintenance_interval_days := Some (- 7)\<rparr>])
   \<and> ultrasound\<lparr>maintenance_interval_days := Some (- 7)\<rparr>
        \<in> set [ultrasound\<lparr>maintenance_interval_days := Some (- 7)\<rparr>]
   \<and> et_id (ultrasound\<lparr>maintenance_interval_days := Some (- 7)\<rparr>) = ''et-ultrasound''
   \<and> maintenance_interval_days (ultrasound\<lparr>maintenance_interval_days := Some (- 7)\<rparr>) = Some (- 7)
   \<and> (- 7::int) \<le> 0
   \<and> update_next_maintenance_date_outcome [ultrasound\<lparr>maintenance_interval_days := Some (- 7)\<rparr>]
        (make_date 2024 7 1) (null_device\<lparr>equipment_type_id := Some ''et-ultrasound''\<rparr>)
       = Inr (null_device\<lparr>equipment_type_id := Some ''et-ultrasound'',
                next_maintenance_date := Some (make_date 2024 7 1 + - 7)\<rparr>)"
proof -
  let ?NEW = "null_device\<lparr>equipment_type_id := Some ''et-ultrasound''\<rparr>"
  let ?et = "ultrasound\<lparr>maintenance_interval_days := Some (- 7)\<rparr>"
  have 1: "equipment_type_id ?NEW = Some ''et-ultrasound''" by simp
  have 2: "distinct (map et_id [?et])" by simp
  have 3: "?et \<in> set [?et]" by simp
  have 4: "et_id ?et = ''et-ultrasound''" by (simp add: ultrasound_def)
  have 5: "maintenance_interval_days ?et = Some (- 7)" by simp
  have 6: "(- 7::int) \<le> 0" by simp
  have 7: "last_maintenance_date ?NEW = None" by (simp add: null_device_def)
  note inst = update_next_maintenance_date_unchecked
    [of "[?et]" "make_date 2024 7 1" ?NEW "''et-ultrasound''" ?et "- 7",
      THEN conjunct2, THEN mp, THEN conjunct1]
  have "update_next_maintenance_date_outcome [?et] (make_date 2024 7 1) ?NEW
          = (if timestamp_in_range (case last_maintenance_date ?NEW of None \<Rightarrow> make_date 2024 7 1 | Some l \<Rightarrow> l)
              \<and> timestamp_in_range
                   ((case last_maintenance_date ?NEW of None \<Rightarrow> make_date 2024 7 1 | Some l \<Rightarrow> l) + - 7)
           then Inr (?NEW\<lparr>next_maintenance_date :=
                  Some ((case last_maintenance_date ?NEW of None \<Rightarrow> make_date 2024 7 1 | Some l \<Rightarrow> l) + - 7)\<rparr>)
           else Inl Timestamp_out_of_range)"
    by (rule inst) (intro conjI 1 2 3 4 5 6)
  then have "update_next_maintenance_date_outcome [?et] (make_date 2024 7 1) ?NEW
          = Inr (?NEW\<lparr>next_maintenance_date := Some (make_date 2024 7 1 + - 7)\<rparr>)"
    by (simp only: 7 option.case timestamp_in_range_2024 simp_thms if_True)
  with 1 2 3 4 5 6 show ?thesis by (intro conjI)
qed

text \<open>
  The claim as stated fails at the interval 0: the rule of the specification answers
  \<open>InvalidConfiguration\<close>, the trigger returns the row with the current date stored.
\<close>

theorem deriveNextMaintenanceDate_counterexample:
  "deriveNextMaintenanceDate None 0 (make_date 2024 1 1) = Inl InvalidConfiguration
   \<and> update_next_maintenance_date_outcome [ultrasound\<lparr>maintenance_interval_days := Some 0\<rparr>]
        (make_date 2024 1 1) (null_device\<lparr>equipment_type_id := Some ''et-ultrasound''\<rparr>)
       = Inr (null_device\<lparr>equipment_type_id := Some ''et-ultrasound'',
                next_maintenance_date := Some (make_date 2024 1 1)\<rparr>)"
proof -
  have "deriveNextMaintenanceDate None 0 (make_date 2024 1 1) = Inl InvalidConfiguration"
    by (simp add: deriveNextMaintenanceDate_def)
  moreover have "update_next_maintenance_date_outcome [ultrasound\<lparr>maintenance_interval_days := Some 0\<rparr>]
        (make_date 2024 1 1) (null_device\<lparr>equipment_type_id := Some ''et-ultrasound''\<rparr>)
       = Inr (null_device\<lparr>equipment_type_id := Some ''et-ultrasound'',
                next_maintenance_date := Some (make_date 2024 1 1)\<rparr>)"
    using timestamp_in_range_2024(3)
    by (simp add: update_next_maintenance_date_outcome_def ultrasound_def
        date_pl_interval_outcome_def coalesce_def interval_1_day_times_def sql_true_def sql_eq_def
        null_device_def)
  ultimately show ?thesis by (intro conjI)
qed

text \<open>
  An interval that takes the date before Julian day 0: the write fails.
\<close>

lemma update_next_maintenance_date_outcome_out_of_range:
  "update_next_maintenance_date_outcome [ultrasound\<lparr>maintenance_interval_days := Some (- 2460312)\<rparr>]
     (make_date 2024 1 1) (null_device\<lparr>equipment_type_id := Some ''et-ultrasound''\<rparr>)
   = Inl Timestamp_out_of_range"
  by code_simp

section \<open>Properties of the escalation trigger\<close>

text \<open>
  The two conditions of the trigger, in SQL's three-valued logic, are the two inputs of the
  specification's rule.
\<close>

lemma urgency_condition:
  "sql_true (sql_or (sql_eq (urgency_level NEW) (Some ''emergency''))
                    (sql_eq (urgency_level NEW) (Some ''critical'')))
     = urgency_escalates NEW"
  by (cases "urgency_level NEW")
     (auto simp: sql_true_def sql_or_def sql_eq_def urgency_escalates_def)

lemma set_critical_department_ids:
  "i \<in> set (critical_department_ids departments)
     \<longleftrightarrow> list_ex (\<lambda>d. dept_id d = i \<and> is_critical d = Some True) departments"
  by (induction departments)
     (auto simp: critical_department_ids_def sql_true_def sql_eq_def split: option.splits)

lemma department_condition:
  "sql_true (sql_in (department_id NEW) (critical_department_ids departments))
     = departmentIsCritical departments NEW"
proof (cases "department_id NEW")
  case None
  then show ?thesis
    by (simp add: sql_in_def sql_true_def departmentIsCritical_def)
next
  case (Some i)
  show ?thesis
  proof (cases "critical_department_ids departments = []")
    case True
    then have "i \<notin> set (critical_department_ids departments)" by simp
    with True Some show ?thesis
      by (simp add: sql_in_def sql_true_def departmentIsCritical_def
          set_critical_department_ids [symmetric])
  next
    case False
    with Some show ?thesis
      by (simp add: sql_in_def sql_true_def departmentIsCritical_def
          set_critical_department_ids [symmetric])
  qed
qed

lemma auto_escalate_emergency_eq:
  "auto_escalate_emergency NEW =
     NEW\<lparr>priority := (if urgency_escalates NEW then Some ''urgent'' else priority NEW)\<rparr>"
  by (simp add: auto_escalate_emergency_def urgency_condition)

lemma set_patient_impact_flag_eq:
  "set_patient_impact_flag departments NEW =
     NEW\<lparr>patient_impact := (if departmentIsCritical departments NEW then Some True else patient_impact NEW)\<rparr>"
  by (simp add: set_patient_impact_flag_def department_condition)

lemma departmentIsCritical_priority [simp]:
  "departmentIsCritical departments (NEW\<lparr>priority := p\<rparr>) = departmentIsCritical departments NEW"
  by (simp add: departmentIsCritical_def)

lemma urgency_escalates_patient_impact [simp]:
  "urgency_escalates (NEW\<lparr>patient_impact := b\<rparr>) = urgency_escalates NEW"
  by (simp add: urgency_escalates_def)

lemma check_request_escalation_eq:
  "check_request_escalation departments NEW =
     NEW\<lparr>priority := (if urgency_escalates NEW then Some ''urgent'' else priority NEW),
         patient_impact := (if departmentIsCritical departments NEW then Some True else patient_impact NEW)\<rparr>"
  by (simp add: check_request_escalation_def auto_escalate_emergency_eq set_patient_impact_flag_eq)

text \<open>
  Claim C3. The trigger returns the priority urgent whenever the urgency level is emergency
  or critical, the patient-impact flag true whenever the department is critical, and leaves
  the priority and the flag (and every other column) as they came otherwise; in particular
  a routine request of a critical department with priority high and the flag false comes
  back as (high, true).
\<close>

theorem check_request_escalation_rules:
  "check_request_escalation departments NEW =
     NEW\<lparr>priority := (if urgency_escalates NEW then Some ''urgent'' else priority NEW),
         patient_impact := (if departmentIsCritical departments NEW then Some True else patient_impact NEW)\<rparr>
   \<and> (urgency_level NEW = Some ''routine'' \<and> departmentIsCritical departments NEW
        \<and> priority NEW = Some ''high'' \<and> patient_impact NEW = Some False \<longrightarrow>
        (priority (check_request_escalation departments NEW),
         patient_impact (check_request_escalation departments NEW)) = (Some ''high'', Some True))"
  by (simp add: check_request_escalation_eq urgency_escalates_def)

theorem check_request_escalation_rules_witness:
  "urgency_level (null_request\<lparr>department_id := Some ''dept-icu'', urgency_level := Some ''routine'',
       priority := Some ''high'', patient_impact := Some False\<rparr>) = Some ''routine''
   \<and> departmentIsCritical seed_departments
        (null_request\<lparr>department_id := Some ''dept-icu'', urgency_level := Some ''routine'',
           priority := Some ''high'', patient_impact := Some False\<rparr>)
   \<and> priority (null_request\<lparr>department_id := Some ''dept-icu'', urgency_level := Some ''routine'',
       priority := Some ''high'', patient_impact := Some False\<rparr>) = Some ''high''
   \<and> patient_impact (null_request\<lparr>department_id := Some ''dept-icu'', urgency_level := Some ''routine'',
       priority := Some ''high'', patient_impact := Some False\<rparr>) = Some False
   \<and> (priority (check_request_escalation seed_departments
          (null_request\<lparr>department_id := Some ''dept-icu'', urgency_level := Some ''routine'',
             priority := Some ''high'', patient_impact := Some False\<rparr>)),
       patient_impact (check_request_escalation seed_departments
          (null_request\<lparr>department_id := Some ''dept-icu'', urgency_level := Some ''routine'',
             priority := Some ''high'', patient_impact := Some False\<rparr>)))
      = (Some ''high'', Some True)"
proof -
  let ?NEW = "null_request\<lparr>department_id := Some ''dept-icu'', urgency_level := Some ''routine'',
       priority := Some ''high'', patient_impact := Some False\<rparr>"
  have 1: "urgency_level ?NEW = Some ''routine''" by simp
  have 2: "departmentIsCritical seed_departments ?NEW"
    by (simp add: departmentIsCritical_def seed_departments_def icu_def)
  have 3: "priority ?NEW = Some ''high''" by simp
  have 4: "patient_impact ?NEW = Some False" by simp
  note inst = check_request_escalation_rules [of seed_departments ?NEW, THEN conjunct2, THEN mp]
  have "(priority (check_request_escalation seed_departments ?NEW),
         patient_impact (check_request_escalation seed_departments ?NEW)) = (Some ''high'', Some True)"
    by (rule inst) (intro conjI 1 2 3 4)
  with 1 2 3 4 show ?thesis by (intro conjI)
qed

text \<open>
  Claim C5. Escalation is monotone: a priority on the scale low < medium < high < urgent comes
  back with a rank on the scale that is at least its rank, and a patient-impact flag that is
  true comes back true. Whatever the input, the priority that comes back is the input's or
  urgent.
\<close>

theorem check_request_escalation_monotone:
  "(priority_rank (priority NEW) = Some r \<longrightarrow>
      (\<exists>r'. priority_rank (priority (check_request_escalation departments NEW)) = Some r' \<and> r \<le> r'))
   \<and> (patient_impact NEW = Some True \<longrightarrow>
        patient_impact (check_request_escalation departments NEW) = Some True)
   \<and> (priority (check_request_escalation departments NEW) = priority NEW
        \<or> priority (check_request_escalation departments NEW) = Some ''urgent'')"
  by (auto simp: check_request_escalation_eq priority_rank_def split: if_splits)

theorem check_request_escalation_monotone_witness:
  "priority_rank (priority (null_request\<lparr>urgency_level := Some ''emergency'', priority := Some ''medium'',
       patient_impact := Some True\<rparr>)) = Some 1
   \<and> (\<exists>r'. priority_rank (priority (check_request_escalation seed_departments
          (null_request\<lparr>urgency_level := Some ''emergency'', priority := Some ''medium'',
             patient_impact := Some True\<rparr>))) = Some r' \<and> 1 \<le> r')
   \<and> patient_impact (null_request\<lparr>urgency_level := Some ''emergency'', priority := Some ''medium'',
       patient_impact := Some True\<rparr>) = Some True
   \<and> patient_impact (check_request_escalation seed_departments
        (null_request\<lparr>urgency_level := Some ''emergency'', priority := Some ''medium'',
           patient_impact := Some True\<rparr>)) = Some True"
proof -
  let ?NEW = "null_request\<lparr>urgency_level := Some ''emergency'', priority := Some ''medium'',
       patient_impact := Some True\<rparr>"
  have 1: "priority_rank (priority ?NEW) = Some 1" by (simp add: priority_rank_def)
  have 2: "patient_impact ?NEW = Some True" by simp
  note mono = check_request_escalation_monotone [of ?NEW 1 seed_departments]
  from mono [THEN conjunct1, THEN mp, OF 1]
    mono [THEN conjunct2, THEN conjunct1, THEN mp, OF 2] 1 2
  show ?thesis by (intro conjI)
qed

text \<open>
  Claim C6. The two rules commute: the patient-impact rule after the priority rule, which is
  the trigger, gives the row that the priority rule after the patient-impact rule gives. The
  priority rule changes the priority only and the patient-impact rule the flag only.
\<close>

theorem escalation_rules_commute:
  "set_patient_impact_flag departments (auto_escalate_emergency NEW)
     = auto_escalate_emergency (set_patient_impact_flag departments NEW)
   \<and> check_request_escalation departments NEW
       = auto_escalate_emergency (set_patient_impact_flag departments NEW)
   \<and> auto_escalate_emergency NEW = NEW\<lparr>priority := priority (auto_escalate_emergency NEW)\<rparr>
   \<and> set_patient_impact_flag departments NEW
       = NEW\<lparr>patient_impact := patient_impact (set_patient_impact_flag departments NEW)\<rparr>"
  by (simp add: check_request_escalation_def auto_escalate_emergency_eq set_patient_impact_flag_eq)

section \<open>Properties of the request service\<close>

lemma getDoc_createRequest:
  "getDoc (snd (createRequest auto_id requestData db)) (fst (createRequest auto_id requestData db))
     = Some (requestData(''status'' \<mapsto> FS_string ''pending'',
                         ''createdAt'' \<mapsto> serverTimestamp,
                         ''updatedAt'' \<mapsto> serverTimestamp))"
  by (simp add: createRequest_def addDoc_def getDoc_def)

text \<open>
  Claim C9. The document store's write path escalates nothing: for every payload the document
  that \<open>createRequest\<close> writes has the payload's \<open>priority\<close>, \<open>urgencyLevel\<close> and
  \<open>patientImpact\<close>, each as supplied or absent as supplied; it agrees with the payload on
  every field but \<open>status\<close>, \<open>createdAt\<close> and \<open>updatedAt\<close>, and these three are all it
  adds.
\<close>

theorem createRequest_persists_payload:
  "\<exists>stored.
      getDoc (snd (createRequest auto_id requestData db)) (fst (createRequest auto_id requestData db))
        = Some stored
    \<and> stored ''priority'' = requestData ''priority''
    \<and> stored ''urgencyLevel'' = requestData ''urgencyLevel''
    \<and> stored ''patientImpact'' = requestData ''patientImpact''
    \<and> stored |` (- {''status'', ''createdAt'', ''updatedAt''})
        = requestData |` (- {''status'', ''createdAt'', ''updatedAt''})
    \<and> dom stored = dom requestData \<union> {''status'', ''createdAt'', ''updatedAt''}"
proof -
  let ?stored = "requestData(''status'' \<mapsto> FS_string ''pending'',
                         ''createdAt'' \<mapsto> serverTimestamp,
                         ''updatedAt'' \<mapsto> serverTimestamp)"
  have "?stored ''priority'' = requestData ''priority''" by simp
  moreover have "?stored ''urgencyLevel'' = requestData ''urgencyLevel''" by simp
  moreover have "?stored ''patientImpact'' = requestData ''patientImpact''" by simp
  moreover have "?stored |` (- {''status'', ''createdAt'', ''updatedAt''})
        = requestData |` (- {''status'', ''createdAt'', ''updatedAt''})"
    by (rule ext) (simp add: restrict_map_def)
  moreover have "dom ?stored = dom requestData \<union> {''status'', ''createdAt'', ''updatedAt''}"
    by auto
  ultimately show ?thesis
    using getDoc_createRequest [of auto_id requestData db] by blast
qed

text \<open>
  Claim C10. The document that \<open>createRequest\<close> writes has the status pending, whatever
  status the payload carries.
\<close>

theorem createRequest_status_pending:
  "\<exists>stored.
      getDoc (snd (createRequest auto_id requestData db)) (fst (createRequest auto_id requestData db))
        = Some stored
    \<and> stored ''status'' = Some (FS_string ''pending'')"
  by (simp add: getDoc_createRequest)

text \<open>
  An emergency request of low priority with a status of its own: the relational trigger would
  raise the priority to urgent, the document store keeps low and false and sets the status
  to pending.
\<close>

lemma createRequest_emergency_example:
  "map_option (\<lambda>stored. (stored ''priority'', stored ''patientImpact'', stored ''status''))
     (getDoc (snd (createRequest ''r1''
                [''priority'' \<mapsto> FS_string ''low'', ''urgencyLevel'' \<mapsto> FS_string ''emergency'',
                 ''patientImpact'' \<mapsto> FS_boolean False, ''status'' \<mapsto> FS_string ''completed'']
                \<lparr>collections = (\<lambda>path. Map.empty)\<rparr>))
        (''requests'', ''r1''))
   = Some (Some (FS_string ''low''), Some (FS_boolean False), Some (FS_string ''pending''))"
  by (simp add: createRequest_def addDoc_def getDoc_def)

end
